theory Spec2Isabelle
  imports Main
begin

section \<open>Strings and the character classes of the patterns\<close>

text \<open>
  A JavaScript string is a sequence of UTF-16 code units, and the patterns of
  \<^verbatim>\<open>formatAiTextToHtml\<close> carry no \<^verbatim>\<open>u\<close> flag, so they work on code units.  A
  \<^typ>\<open>char\<close> stands for one code unit below 256; the code units from 256 on
  (among them the line terminators U+2028 and U+2029 and the wide spaces) are
  outside this model.
\<close>

definition line_terminator :: "char \<Rightarrow> bool" where
  "line_terminator c = (c = CHR 0x0A \<or> c = CHR 0x0D)"

text \<open>The class \<^verbatim>\<open>.\<close>: every code unit but a line terminator.\<close>

definition dot :: "char \<Rightarrow> bool" where
  "dot c = (\<not> line_terminator c)"

text \<open>The group \<^verbatim>\<open>(?:.|\n)\<close>.\<close>

definition dot_or_newline :: "char \<Rightarrow> bool" where
  "dot_or_newline c = (dot c \<or> c = CHR 0x0A)"

text \<open>The class \<^verbatim>\<open>\s\<close>: tab, line feed, vertical tab, form feed, carriage
  return, space and the no-break space.\<close>

definition white_space :: "char \<Rightarrow> bool" where
  "white_space c =
     (c = CHR 0x09 \<or> c = CHR 0x0A \<or> c = CHR 0x0B \<or> c = CHR 0x0C \<or> c = CHR 0x0D
      \<or> c = CHR 0x20 \<or> c = CHR 0xA0)"

text \<open>The class \<^verbatim>\<open>\d\<close>.\<close>

definition digit :: "char \<Rightarrow> bool" where
  "digit c = (c = CHR ''0'' \<or> c = CHR ''1'' \<or> c = CHR ''2'' \<or> c = CHR ''3'' \<or> c = CHR ''4''
      \<or> c = CHR ''5'' \<or> c = CHR ''6'' \<or> c = CHR ''7'' \<or> c = CHR ''8'' \<or> c = CHR ''9'')"

fun starts_with :: "string \<Rightarrow> string \<Rightarrow> bool" where
  "starts_with [] s = True"
| "starts_with (p # ps) [] = False"
| "starts_with (p # ps) (c # cs) = (p = c \<and> starts_with ps cs)"

text \<open>
  A lazy run \<^verbatim>\<open>X*?\<close> followed by the literal \<open>lit\<close>: the run grows one code
  unit of the class \<open>cls\<close> at a time and stops at the first place where \<open>lit\<close>
  follows.  The result is the run; there is none when a code unit outside the
  class, or the end of the input, comes before \<open>lit\<close>.
\<close>

fun lazy_until :: "(char \<Rightarrow> bool) \<Rightarrow> string \<Rightarrow> string \<Rightarrow> string option" where
  "lazy_until cls lit [] = (if lit = [] then Some [] else None)"
| "lazy_until cls lit (c # cs) =
     (if starts_with lit (c # cs) then Some []
      else if cls c then map_option ((#) c) (lazy_until cls lit cs)
      else None)"

section \<open>Global replacement\<close>

text \<open>
  \<^verbatim>\<open>String.prototype.replace\<close> with a pattern that has the \<^verbatim>\<open>g\<close> flag.  A pattern
  is given by its matcher: at a position, told whether \<^verbatim>\<open>^\<close> holds there (the
  start of the input, or just after a line terminator) and given the input
  from there on, it returns the matched text and the text that replaces it.
  The scan goes from left to right; after a match it goes on behind the match
  (one code unit further when the match is empty), and a code unit where
  nothing matches is copied.
\<close>

type_synonym pattern = "bool \<Rightarrow> string \<Rightarrow> (string \<times> string) option"

function replace :: "pattern \<Rightarrow> bool \<Rightarrow> string \<Rightarrow> string" where
  "replace re bol [] = (case re bol [] of Some (m, rep) \<Rightarrow> rep | None \<Rightarrow> [])"
| "replace re bol (c # cs) =
     (case re bol (c # cs) of
        Some (m, rep) \<Rightarrow>
          if m = [] then rep @ c # replace re (line_terminator c) cs
          else rep @ replace re (line_terminator (last m)) (drop (length m) (c # cs))
      | None \<Rightarrow> c # replace re (line_terminator c) cs)"
  by pat_completeness auto
termination
  by (relation "measure (\<lambda>(re, bol, s). length s)") auto

text \<open>A pattern that is a literal, with a fixed replacement.\<close>

definition literal :: "string \<Rightarrow> string \<Rightarrow> pattern" where
  "literal lit rep bol s = (if starts_with lit s then Some (lit, rep) else None)"

text \<open>\<^verbatim>\<open>/\*\*(.*?)\*\*/g\<close> with \<^verbatim>\<open>'<h3>$1</h3>'\<close>.\<close>

definition bold :: pattern where
  "bold bol s =
     (if starts_with ''**'' s then
        (case lazy_until dot ''**'' (drop 2 s) of
           Some g \<Rightarrow> Some (''**'' @ g @ ''**'', ''<h3>'' @ g @ ''</h3>'')
         | None \<Rightarrow> None)
      else None)"

text \<open>
  \<^verbatim>\<open>/^\s*[\*]\s(.*?)$/gm\<close> with \<^verbatim>\<open>'<li>$1</li>'\<close>.  The greedy \<^verbatim>\<open>\s*\<close> takes all
  the white space there is (with less, the next code unit is white space and
  not the star), line terminators among it; the lazy group then grows up to
  the first place where \<^verbatim>\<open>$\<close> holds, the end of the line.
\<close>

definition star_item :: pattern where
  "star_item bol s =
     (if bol then
        (case dropWhile white_space s of
           a # b # rest \<Rightarrow>
             if a = CHR ''*'' \<and> white_space b then
               let g = takeWhile dot rest
               in Some (takeWhile white_space s @ [a, b] @ g, ''<li>'' @ g @ ''</li>'')
             else None
         | _ \<Rightarrow> None)
      else None)"

text \<open>\<^verbatim>\<open>/^\s*\d\.\s(.*?)$/gm\<close> with \<^verbatim>\<open>'<li>$1</li>'\<close>.\<close>

definition digit_item :: pattern where
  "digit_item bol s =
     (if bol then
        (case dropWhile white_space s of
           a # b # c # rest \<Rightarrow>
             if digit a \<and> b = CHR ''.'' \<and> white_space c then
               let g = takeWhile dot rest
               in Some (takeWhile white_space s @ [a, b, c] @ g, ''<li>'' @ g @ ''</li>'')
             else None
         | _ \<Rightarrow> None)
      else None)"

text \<open>
  One round of the group in \<^verbatim>\<open>/(?:<li>(?:.|\n)*?<\/li>\s*)+/g\<close>: the text it
  matches, if it matches.
\<close>

definition li_round :: "string \<Rightarrow> string option" where
  "li_round s =
     (if starts_with ''<li>'' s then
        (case lazy_until dot_or_newline ''</li>'' (drop 4 s) of
           Some g \<Rightarrow>
             Some (''<li>'' @ g @ ''</li>''
                   @ takeWhile white_space (drop (4 + length g + 5) s))
         | None \<Rightarrow> None)
      else None)"

text \<open>The greedy \<^verbatim>\<open>+\<close>: rounds are taken as long as one matches.\<close>

function li_rounds :: "string \<Rightarrow> string" where
  "li_rounds s =
     (case li_round s of
        None \<Rightarrow> []
      | Some m \<Rightarrow> m @ li_rounds (drop (length m) s))"
  by pat_completeness auto
termination
proof (relation "measure length")
  show "wf (measure length)" by simp
next
  fix s m :: string
  assume "li_round s = Some m"
  then have "m \<noteq> []" and "s \<noteq> []"
    by (cases s; auto simp: li_round_def split: if_splits option.splits)+
  then show "(drop (length m) s, s) \<in> measure length"
    by simp
qed

declare li_rounds.simps [simp del]

text \<open>The callback wraps the whole match: \<^verbatim>\<open>`<ul>${match}</ul>`\<close>.\<close>

definition li_run :: pattern where
  "li_run bol s =
     (let m = li_rounds s
      in if m = [] then None else Some (m, ''<ul>'' @ m @ ''</ul>''))"

section \<open>The formatter\<close>

definition formatAiTextToHtml :: "string \<Rightarrow> string" where
  "formatAiTextToHtml text =
     (let html = replace bold True text;
          html = replace star_item True html;
          html = replace digit_item True html;
          html = replace li_run True html;
          html = replace (literal ''<br><br>'' ''</p><p>'') True
                   (replace (literal ''\<newline>'' '' '') True
                      (replace (literal ''\<newline>\<newline>'' ''<br><br>'') True html));
          html = ''<p>'' @ html @ ''</p>'';
          html = replace (literal ''<p></p>'' []) True html;
          html = replace (literal ''<p><ul>'' ''<ul>'') True html;
          html = replace (literal ''</ul></p>'' ''</ul>'') True html;
          html = replace (literal ''<p><h3>'' ''<h3>'') True html;
          html = replace (literal ''</h3></p>'' ''</h3>'') True html;
          html = replace (literal ''</h3><p>'' ''</h3>'') True html;
          html = replace (literal ''</ul><p>'' ''</ul>'') True html
      in html)"

section \<open>Values, property reads and faults\<close>

text \<open>
  The values the handler meets: what \<^verbatim>\<open>JSON.parse\<close> and \<^verbatim>\<open>response.json()\<close>
  return, and \<^verbatim>\<open>undefined\<close> for a property that is not there.  A number is
  held as the text that converting it to a string gives (floating point itself
  is not modelled); minus zero prints as \<^verbatim>\<open>0\<close> and JSON has no NaN, so
  \<open>Num ''0''\<close> is the number zero.  An object lists its own properties, each key
  once.
\<close>

datatype jsval =
    Undefined
  | Null
  | Bool bool
  | Num string
  | Str string
  | Arr "jsval list"
  | Obj "(string \<times> jsval) list"

text \<open>What a \<^verbatim>\<open>throw\<close> or a rejected promise carries; \<open>message\<close> is its
  \<^verbatim>\<open>.message\<close>.\<close>

datatype js_error =
    Error string
  | TypeError string
  | SyntaxError string
  | FetchError string

fun message :: "js_error \<Rightarrow> string" where
  "message (Error m) = m"
| "message (TypeError m) = m"
| "message (SyntaxError m) = m"
| "message (FetchError m) = m"

fun truthy :: "jsval \<Rightarrow> bool" where
  "truthy Undefined = False"
| "truthy Null = False"
| "truthy (Bool b) = b"
| "truthy (Num n) = (n \<noteq> ''0'')"
| "truthy (Str s) = (s \<noteq> [])"
| "truthy (Arr xs) = True"
| "truthy (Obj kvs) = True"

fun nullish :: "jsval \<Rightarrow> bool" where
  "nullish Undefined = True"
| "nullish Null = True"
| "nullish v = False"

text \<open>A natural number in decimal, as a number prints.\<close>

definition decimal_digit :: "nat \<Rightarrow> char" where
  "decimal_digit d =
     (if d = 0 then CHR ''0'' else if d = 1 then CHR ''1'' else if d = 2 then CHR ''2''
      else if d = 3 then CHR ''3'' else if d = 4 then CHR ''4'' else if d = 5 then CHR ''5''
      else if d = 6 then CHR ''6'' else if d = 7 then CHR ''7'' else if d = 8 then CHR ''8''
      else CHR ''9'')"

fun decimal :: "nat \<Rightarrow> string" where
  "decimal n =
     (if n < 10 then [decimal_digit n]
      else decimal (n div 10) @ [decimal_digit (n mod 10)])"

declare decimal.simps [simp del]

text \<open>
  \<open>field v k\<close> is the data property \<open>k\<close> of a value \<open>v\<close> that is neither
  \<^verbatim>\<open>null\<close> nor \<^verbatim>\<open>undefined\<close>, for the names the handler reads (\<^verbatim>\<open>skills\<close>,
  \<^verbatim>\<open>length\<close>, \<^verbatim>\<open>error\<close>, \<^verbatim>\<open>message\<close>, \<^verbatim>\<open>candidates\<close>, \<^verbatim>\<open>content\<close>, \<^verbatim>\<open>parts\<close>,
  \<^verbatim>\<open>text\<close>): of these only \<^verbatim>\<open>length\<close> lives on a prototype or a primitive.
  The methods of the prototypes are not values of this model.  \<open>elem0 v\<close> is
  \<^verbatim>\<open>v[0]\<close>.
\<close>

fun field :: "jsval \<Rightarrow> string \<Rightarrow> jsval" where
  "field (Obj kvs) k = (case map_of kvs k of Some v \<Rightarrow> v | None \<Rightarrow> Undefined)"
| "field (Arr xs) k = (if k = ''length'' then Num (decimal (length xs)) else Undefined)"
| "field (Str s) k = (if k = ''length'' then Num (decimal (length s)) else Undefined)"
| "field v k = Undefined"

fun elem0 :: "jsval \<Rightarrow> jsval" where
  "elem0 (Obj kvs) = (case map_of kvs ''0'' of Some v \<Rightarrow> v | None \<Rightarrow> Undefined)"
| "elem0 (Arr xs) = (case xs of [] \<Rightarrow> Undefined | x # _ \<Rightarrow> x)"
| "elem0 (Str s) = (case s of [] \<Rightarrow> Undefined | c # _ \<Rightarrow> Str [c])"
| "elem0 v = Undefined"

definition cannot_read :: "jsval \<Rightarrow> string \<Rightarrow> js_error" where
  "cannot_read v k =
     TypeError (''Cannot read properties of ''
                @ (if v = Null then ''null'' else ''undefined'')
                @ '' (reading '' @ [CHR 0x27] @ k @ [CHR 0x27] @ '')'')"

text \<open>\<^verbatim>\<open>v.k\<close> and \<^verbatim>\<open>v[0]\<close> raise on \<^verbatim>\<open>null\<close> and \<^verbatim>\<open>undefined\<close>; \<^verbatim>\<open>v?.k\<close> and
  \<^verbatim>\<open>v?.[0]\<close> give \<^verbatim>\<open>undefined\<close> there.\<close>

definition get :: "jsval \<Rightarrow> string \<Rightarrow> js_error + jsval" where
  "get v k = (if nullish v then Inl (cannot_read v k) else Inr (field v k))"

definition get0 :: "jsval \<Rightarrow> js_error + jsval" where
  "get0 v = (if nullish v then Inl (cannot_read v ''0'') else Inr (elem0 v))"

definition opt :: "jsval \<Rightarrow> string \<Rightarrow> jsval" where
  "opt v k = (if nullish v then Undefined else field v k)"

definition opt0 :: "jsval \<Rightarrow> jsval" where
  "opt0 v = (if nullish v then Undefined else elem0 v)"

text \<open>
  Conversion to a string, as a template literal and \<^verbatim>\<open>Array.prototype.join\<close> do
  it.  An array is its elements joined by a comma, \<^verbatim>\<open>null\<close> and \<^verbatim>\<open>undefined\<close>
  elements as the empty string.  An object is \<^verbatim>\<open>[object Object]\<close>, unless it
  has a property of its own called \<^verbatim>\<open>toString\<close>: that one is data, not a
  function, and the conversion raises.
\<close>

fun to_str :: "jsval \<Rightarrow> js_error + string"
  and join :: "string \<Rightarrow> jsval list \<Rightarrow> js_error + string" where
  "to_str Undefined = Inr ''undefined''"
| "to_str Null = Inr ''null''"
| "to_str (Bool b) = Inr (if b then ''true'' else ''false'')"
| "to_str (Num n) = Inr n"
| "to_str (Str s) = Inr s"
| "to_str (Arr xs) = join '','' xs"
| "to_str (Obj kvs) =
     (if map_of kvs ''toString'' = None then Inr ''[object Object]''
      else Inl (TypeError ''Cannot convert object to primitive value''))"
| "join sep [] = Inr []"
| "join sep (x # xs) =
     (case (if nullish x then Inr [] else to_str x) of
        Inl e \<Rightarrow> Inl e
      | Inr s \<Rightarrow>
          if xs = [] then Inr s
          else (case join sep xs of Inl e \<Rightarrow> Inl e | Inr r \<Rightarrow> Inr (s @ sep @ r)))"

text \<open>\<^verbatim>\<open>skills.join(', ')\<close>: only an array has the method.\<close>

definition call_join :: "jsval \<Rightarrow> string \<Rightarrow> js_error + string" where
  "call_join skills sep =
     (case skills of
        Arr xs \<Rightarrow> join sep xs
      | Undefined \<Rightarrow> Inl (cannot_read skills ''join'')
      | Null \<Rightarrow> Inl (cannot_read skills ''join'')
      | _ \<Rightarrow> Inl (TypeError ''skills.join is not a function''))"

section \<open>The handler\<close>

text \<open>
  What the handler returns is \<^verbatim>\<open>{ statusCode, body: JSON.stringify(...) }\<close>; the
  body is kept as the object that is serialised, \<^verbatim>\<open>{ error: ... }\<close> or
  \<^verbatim>\<open>{ html: ... }\<close>.
\<close>

datatype reply_body = error_body string | html_body string

record reply =
  statusCode :: nat
  body :: reply_body

text \<open>The request given to \<^verbatim>\<open>fetch\<close>, its body before \<^verbatim>\<open>JSON.stringify\<close>.\<close>

record request =
  req_url :: string
  req_method :: string
  req_headers :: "(string \<times> string) list"
  req_body :: jsval

text \<open>The response of \<^verbatim>\<open>fetch\<close>: \<^verbatim>\<open>response.ok\<close>, \<^verbatim>\<open>response.status\<close>, and what
  \<^verbatim>\<open>await response.json()\<close> raises or returns.\<close>

record response =
  res_ok :: bool
  res_status :: nat
  res_json :: "js_error + jsval"

datatype log_entry =
    api_error_body jsval
  | function_error js_error

text \<open>
  One invocation: the promise of the \<^verbatim>\<open>async\<close> function settles with a reply
  (\<open>Inr\<close>) or is rejected with a fault (\<open>Inl\<close>); \<open>requests\<close> are the calls of
  \<^verbatim>\<open>fetch\<close> made and \<open>logged\<close> the calls of \<^verbatim>\<open>console.error\<close>.
\<close>

record run =
  result :: "js_error + reply"
  requests :: "request list"
  logged :: "log_entry list"

definition systemPrompt :: string where
  "systemPrompt = ''You are a friendly and encouraging 4th-grade teaching assistant. A student just failed a test and needs help with the following skills. For each skill, please generate a simple, easy-to-understand mini-lesson. This lesson should include: 1. A simple definition of the skill. 2. A few tips or strategies to help them get the right answer next time. 3. A quick, simple example. Do not use external links or URLs.''"

definition GEMINI_API_URL :: "string \<Rightarrow> string" where
  "GEMINI_API_URL key =
     ''https://generativelanguage.googleapis.com/v1beta/models/gemini-2.5-flash-preview-09-2025:generateContent?key='' @ key"

definition payload :: "string \<Rightarrow> jsval" where
  "payload userQuery =
     Obj [(''contents'', Arr [Obj [(''parts'', Arr [Obj [(''text'', Str userQuery)]])]]),
          (''systemInstruction'', Obj [(''parts'', Arr [Obj [(''text'', Str systemPrompt)]])])]"

definition upstream_request :: "string \<Rightarrow> string \<Rightarrow> request" where
  "upstream_request key userQuery =
     \<lparr>req_url = GEMINI_API_URL key,
      req_method = ''POST'',
      req_headers = [(''Content-Type'', ''application/json'')],
      req_body = payload userQuery\<rparr>"

text \<open>
  The first \<^verbatim>\<open>try\<close>: \<^verbatim>\<open>JSON.parse(event.body)\<close>, whose outcome is the argument
  (it raises, or returns a value), then \<^verbatim>\<open>body.skills || []\<close>.
\<close>

definition read_skills :: "js_error + jsval \<Rightarrow> js_error + jsval" where
  "read_skills parsed =
     (case parsed of
        Inl e \<Rightarrow> Inl e
      | Inr b \<Rightarrow>
          (case get b ''skills'' of
             Inl e \<Rightarrow> Inl e
           | Inr v \<Rightarrow> Inr (if truthy v then v else Arr [])))"

text \<open>The formatter called on a value: only a string has \<^verbatim>\<open>replace\<close>.\<close>

definition format_value :: "jsval \<Rightarrow> js_error + string" where
  "format_value rawText =
     (case rawText of
        Str text \<Rightarrow> Inr (formatAiTextToHtml text)
      | Undefined \<Rightarrow> Inl (cannot_read rawText ''replace'')
      | Null \<Rightarrow> Inl (cannot_read rawText ''replace'')
      | _ \<Rightarrow> Inl (TypeError ''text.replace is not a function''))"

text \<open>The branch \<^verbatim>\<open>if (!response.ok)\<close>, after \<^verbatim>\<open>response.json()\<close> has returned:
  it always throws.\<close>

definition api_error :: "nat \<Rightarrow> jsval \<Rightarrow> js_error" where
  "api_error status errorBody =
     (case get errorBody ''error'' of
        Inl e \<Rightarrow> e
      | Inr err \<Rightarrow>
          (let m = opt err ''message'' in
           case to_str (if truthy m then m else Str []) of
             Inl e \<Rightarrow> e
           | Inr text \<Rightarrow> Error (''API Error: '' @ decimal status @ '' '' @ text)))"

text \<open>
  The rest of the second \<^verbatim>\<open>try\<close>, from the result of a successful response
  on.  The test \<^verbatim>\<open>!candidate || !candidate.content?.parts?.[0]?.text\<close> reads
  \<^verbatim>\<open>candidate.content\<close> only when the candidate is truthy; the path is then
  read once more for \<^verbatim>\<open>rawText\<close>.
\<close>

definition read_result :: "jsval \<Rightarrow> js_error + reply" where
  "read_result res =
     (case get res ''candidates'' of
        Inl e \<Rightarrow> Inl e
      | Inr cs \<Rightarrow>
          (let candidate = opt0 cs in
           if \<not> truthy candidate then
             Inl (Error ''Invalid response from AI. No content found.'')
           else
             (case get candidate ''content'' of
                Inl e \<Rightarrow> Inl e
              | Inr content \<Rightarrow>
                  if \<not> truthy (opt (opt0 (opt content ''parts'')) ''text'') then
                    Inl (Error ''Invalid response from AI. No content found.'')
                  else
                    (case get content ''parts'' of
                       Inl e \<Rightarrow> Inl e
                     | Inr parts \<Rightarrow>
                         (case get0 parts of
                            Inl e \<Rightarrow> Inl e
                          | Inr part \<Rightarrow>
                              (case get part ''text'' of
                                 Inl e \<Rightarrow> Inl e
                               | Inr rawText \<Rightarrow>
                                   (case format_value rawText of
                                      Inl e \<Rightarrow> Inl e
                                    | Inr html \<Rightarrow>
                                        Inr \<lparr>statusCode = 200,
                                             body = html_body html\<rparr>)))))))"

text \<open>
  The body of the second \<^verbatim>\<open>try\<close>.  The argument is the outcome of the call of
  \<^verbatim>\<open>fetch\<close>: it rejects, or gives a response.  With the outcome of the block
  comes what it logs.
\<close>

definition try_block :: "js_error + response \<Rightarrow> (js_error + reply) \<times> log_entry list" where
  "try_block fetched =
     (case fetched of
        Inl e \<Rightarrow> (Inl e, [])
      | Inr response \<Rightarrow>
          if \<not> res_ok response then
            (case res_json response of
               Inl e \<Rightarrow> (Inl e, [])
             | Inr errorBody \<Rightarrow>
                 (Inl (api_error (res_status response) errorBody), [api_error_body errorBody]))
          else
            (case res_json response of
               Inl e \<Rightarrow> (Inl e, [])
             | Inr res \<Rightarrow> (read_result res, [])))"

text \<open>
  \<^verbatim>\<open>handler\<close>.  Its inputs are \<^verbatim>\<open>process.env.GOOGLE_AI_API_KEY\<close> (absent, or a
  string), the outcome of \<^verbatim>\<open>JSON.parse(event.body)\<close>, and the outcome of the one
  call of \<^verbatim>\<open>fetch\<close>, should the handler get there.  What is raised outside the
  two \<^verbatim>\<open>try\<close> blocks rejects the promise.
\<close>

definition settle :: "js_error + reply \<Rightarrow> run" where
  "settle r = \<lparr>result = r, requests = [], logged = []\<rparr>"

definition handler :: "string option \<Rightarrow> js_error + jsval \<Rightarrow> js_error + response \<Rightarrow> run" where
  "handler GOOGLE_AI_API_KEY parsed fetched =
     (case GOOGLE_AI_API_KEY of
        None \<Rightarrow>
          settle (Inr \<lparr>statusCode = 500,
                       body = error_body ''API key is not configured on the server.''\<rparr>)
      | Some key \<Rightarrow>
          if key = [] then
            settle (Inr \<lparr>statusCode = 500,
                         body = error_body ''API key is not configured on the server.''\<rparr>)
          else
            (case read_skills parsed of
               Inl e \<Rightarrow>
                 settle (Inr \<lparr>statusCode = 400, body = error_body ''Invalid request body.''\<rparr>)
             | Inr skills \<Rightarrow>
                 (case get skills ''length'' of
                    Inl e \<Rightarrow> settle (Inl e)
                  | Inr len \<Rightarrow>
                      if len = Num ''0'' then
                        settle (Inr \<lparr>statusCode = 400,
                                     body = error_body ''No skills provided.''\<rparr>)
                      else
                        (case call_join skills '', '' of
                           Inl e \<Rightarrow> settle (Inl e)
                         | Inr joined \<Rightarrow>
                             (let userQuery = ''Here are the skills I struggled with: '' @ joined;
                                  sent = [upstream_request key userQuery]
                              in case try_block fetched of
                                   (Inl error, logs) \<Rightarrow>
                                     \<lparr>result = Inr \<lparr>statusCode = 500,
                                                    body = error_body (message error)\<rparr>,
                                      requests = sent,
                                      logged = logs @ [function_error error]\<rparr>
                                 | (Inr r, logs) \<Rightarrow>
                                     \<lparr>result = Inr r, requests = sent, logged = logs\<rparr>)))))"

section \<open>Notions of the specification\<close>

text \<open>How often a text occurs in a string, overlaps counted.\<close>

fun occurrences :: "string \<Rightarrow> string \<Rightarrow> nat" where
  "occurrences p [] = 0"
| "occurrences p (c # cs) = (if starts_with p (c # cs) then 1 else 0) + occurrences p cs"

text \<open>
  The paths of an upstream body, read leniently (\<^verbatim>\<open>undefined\<close> as soon as a
  step is missing): the first candidate \<^verbatim>\<open>res?.candidates?.[0]\<close>, the text of
  its first content part \<^verbatim>\<open>?.content?.parts?.[0]?.text\<close>, and the message of an
  error body \<^verbatim>\<open>errorBody?.error?.message\<close>.
\<close>

definition first_candidate :: "jsval \<Rightarrow> jsval" where
  "first_candidate res = opt0 (opt res ''candidates'')"

definition first_text :: "jsval \<Rightarrow> jsval" where
  "first_text res =
     opt (opt0 (opt (opt (first_candidate res) ''content'') ''parts'')) ''text''"

definition error_message :: "jsval \<Rightarrow> jsval" where
  "error_message errorBody = opt (opt errorBody ''error'') ''message''"

text \<open>The user query of a request: \<^verbatim>\<open>contents[0].parts[0].text\<close> of its body.\<close>

definition sent_user_query :: "request \<Rightarrow> jsval" where
  "sent_user_query r =
     opt (opt0 (opt (opt0 (opt (req_body r) ''contents'')) ''parts'')) ''text''"

section \<open>Auxiliary facts\<close>

lemma join_strings: "join sep (map Str (s # ss)) = Inr (s @ concat (map ((@) sep) ss))"
  by (induction ss arbitrary: s) simp_all

lemma decimal_nonempty: "decimal n \<noteq> []"
  by (subst decimal.simps) simp

lemma decimal_zero: "decimal n = ''0'' \<longleftrightarrow> n = 0"
proof (cases "n < 10")
  case True
  then show ?thesis
    by (subst decimal.simps) (simp add: decimal_digit_def)
next
  case False
  then have "decimal n = decimal (n div 10) @ [decimal_digit (n mod 10)]"
    by (subst decimal.simps) simp
  moreover have "length (decimal (n div 10)) \<noteq> 0"
    using decimal_nonempty by simp
  ultimately have "length (decimal n) \<noteq> 1"
    by simp
  with False show ?thesis
    by auto
qed

lemma length_zero: "field (Arr xs) ''length'' = Num ''0'' \<longleftrightarrow> xs = []"
  by (simp add: decimal_zero)

lemma nullish_falsy: "nullish v \<Longrightarrow> \<not> truthy v"
  by (cases v) simp_all

lemma read_skills_value:
  "\<not> nullish b \<Longrightarrow>
   read_skills (Inr b) = Inr (if truthy (field b ''skills'') then field b ''skills'' else Arr [])"
  by (simp add: read_skills_def get_def)

text \<open>Once the handler has called upstream, its result is that of the second
  \<^verbatim>\<open>try\<close>, a fault turned into a reply by the \<^verbatim>\<open>catch\<close>.\<close>

lemma handler_called:
  "requests (handler k parsed fetched) \<noteq> [] \<Longrightarrow>
   result (handler k parsed fetched) =
     Inr (case fst (try_block fetched) of
            Inl e \<Rightarrow> \<lparr>statusCode = 500, body = error_body (message e)\<rparr>
          | Inr r \<Rightarrow> r)"
  by (auto simp: handler_def settle_def Let_def
      split: option.splits sum.splits if_splits prod.splits)

lemma handler_requests:
  assumes "key \<noteq> []" and "parsed = Inr b"
    and "field b ''skills'' = Arr (map Str (s # ss))"
  shows "requests (handler (Some key) parsed fetched) =
    [upstream_request key
       (''Here are the skills I struggled with: '' @ s @ concat (map ((@) '', '') ss))]"
proof -
  have "\<not> nullish b"
    using assms(3) by (cases b) simp_all
  then have "read_skills parsed = Inr (Arr (map Str (s # ss)))"
    using assms by (simp add: read_skills_value)
  moreover have "get (Arr (map Str (s # ss))) ''length''
      = Inr (field (Arr (map Str (s # ss))) ''length'')"
    by (simp add: get_def)
  moreover have "field (Arr (map Str (s # ss))) ''length'' \<noteq> Num ''0''"
    by (simp only: length_zero) simp
  moreover have "call_join (Arr (map Str (s # ss))) '', ''
      = Inr (s @ concat (map ((@) '', '') ss))"
    by (simp only: call_join_def jsval.case join_strings)
  ultimately show ?thesis
    using assms(1) by (simp add: handler_def Let_def split: prod.splits sum.splits)
qed

lemma read_result_invalid:
  assumes "\<not> nullish res" and "\<not> truthy (first_text res)"
  shows "read_result res = Inl (Error ''Invalid response from AI. No content found.'')"
proof -
  have cs: "get res ''candidates'' = Inr (field res ''candidates'')"
    using assms(1) by (simp add: get_def)
  have c: "opt0 (field res ''candidates'') = first_candidate res"
    using assms(1) by (simp add: first_candidate_def opt_def)
  show ?thesis
  proof (cases "truthy (first_candidate res)")
    case False
    then show ?thesis
      by (simp add: read_result_def cs c)
  next
    case True
    then have present: "\<not> nullish (first_candidate res)"
      using nullish_falsy by blast
    then have content: "get (first_candidate res) ''content''
        = Inr (field (first_candidate res) ''content'')"
      by (simp add: get_def)
    have "first_text res
        = opt (opt0 (opt (field (first_candidate res) ''content'') ''parts'')) ''text''"
      using present by (simp add: first_text_def opt_def [of "first_candidate res"])
    with assms(2)
    have "\<not> truthy (opt (opt0 (opt (field (first_candidate res) ''content'') ''parts'')) ''text'')"
      by simp
    with True show ?thesis
      by (simp add: read_result_def cs c content)
  qed
qed

lemma no_candidate_no_text: "nullish (first_candidate res) \<Longrightarrow> first_text res = Undefined"
  by (simp add: first_text_def opt_def opt0_def)

lemma try_block_error_response:
  "\<not> res_ok response \<Longrightarrow> res_json response = Inr errorBody \<Longrightarrow>
   fst (try_block (Inr response)) = Inl (api_error (res_status response) errorBody)"
  by (simp add: try_block_def)

lemma try_block_ok_response:
  "res_ok response \<Longrightarrow> res_json response = Inr res \<Longrightarrow>
   fst (try_block (Inr response)) = read_result res"
  by (simp add: try_block_def)

section \<open>The formatter on the examples of the specification\<close>

text \<open>
  C2.  On \<^verbatim>\<open>"**Fractions**\nDefinition here."\<close> the formatter gives the heading
  element with \<^verbatim>\<open>Fractions\<close>, directly followed by the text \<^verbatim>\<open>Definition here.\<close>
  (after the space that was the newline) and the closing tag of the paragraph;
  no opening paragraph tag is left, so no paragraph wraps the heading.
\<close>

theorem format_bold_heading:
  "formatAiTextToHtml ''**Fractions**\<newline>Definition here.''
     = ''<h3>Fractions</h3> Definition here.</p>''
   \<and> occurrences ''<p>'' (formatAiTextToHtml ''**Fractions**\<newline>Definition here.'') = 0"
  by code_simp

text \<open>
  C4.  On \<^verbatim>\<open>"* item one\n* item two"\<close> the formatter gives one list container
  around two list items, \<^verbatim>\<open>item one\<close> before \<^verbatim>\<open>item two\<close>.
\<close>

theorem format_star_items:
  "formatAiTextToHtml ''* item one\<newline>* item two''
     = ''<ul><li>item one</li> <li>item two</li></ul>''
   \<and> occurrences ''<ul>'' (formatAiTextToHtml ''* item one\<newline>* item two'') = 1
   \<and> occurrences ''</ul>'' (formatAiTextToHtml ''* item one\<newline>* item two'') = 1
   \<and> occurrences ''<li>'' (formatAiTextToHtml ''* item one\<newline>* item two'') = 2
   \<and> occurrences ''</li>'' (formatAiTextToHtml ''* item one\<newline>* item two'') = 2"
  by code_simp

text \<open>
  C5.  On \<^verbatim>\<open>"1. first\n2. second"\<close> the formatter gives one list container around
  two list items in the order of the input, in the markup of the star bullets:
  the result is that of \<^verbatim>\<open>"* first\n* second"\<close>.
\<close>

theorem format_digit_items:
  "formatAiTextToHtml ''1. first\<newline>2. second''
     = ''<ul><li>first</li> <li>second</li></ul>''
   \<and> formatAiTextToHtml ''1. first\<newline>2. second''
     = formatAiTextToHtml ''* first\<newline>* second''
   \<and> occurrences ''<ul>'' (formatAiTextToHtml ''1. first\<newline>2. second'') = 1
   \<and> occurrences ''<li>'' (formatAiTextToHtml ''1. first\<newline>2. second'') = 2"
  by code_simp

section \<open>The gates of the handler\<close>

text \<open>
  C6.  With the API key absent or empty the handler returns status 500 and the
  error \<^verbatim>\<open>API key is not configured on the server.\<close>, whatever the request body
  is and whether it parses or not; nothing is sent upstream.
\<close>

theorem missing_key_500:
  "GOOGLE_AI_API_KEY = None \<or> GOOGLE_AI_API_KEY = Some [] \<Longrightarrow>
   handler GOOGLE_AI_API_KEY parsed fetched =
     \<lparr>result = Inr \<lparr>statusCode = 500,
                     body = error_body ''API key is not configured on the server.''\<rparr>,
      requests = [], logged = []\<rparr>"
  by (auto simp: handler_def settle_def)

theorem missing_key_500_witness:
  "handler None (Inl (SyntaxError ''Unexpected end of JSON input'')) (Inl (FetchError ''unused'')) =
     \<lparr>result = Inr \<lparr>statusCode = 500,
                     body = error_body ''API key is not configured on the server.''\<rparr>,
      requests = [], logged = []\<rparr>
   \<and> handler (Some []) (Inr (Obj [(''skills'', Arr [Str ''fractions''])]))
        (Inl (FetchError ''unused'')) =
     \<lparr>result = Inr \<lparr>statusCode = 500,
                     body = error_body ''API key is not configured on the server.''\<rparr>,
      requests = [], logged = []\<rparr>"
  using missing_key_500 [of None "Inl (SyntaxError ''Unexpected end of JSON input'')"
      "Inl (FetchError ''unused'')"]
    missing_key_500 [of "Some []" "Inr (Obj [(''skills'', Arr [Str ''fractions''])])"
      "Inl (FetchError ''unused'')"]
  by simp

text \<open>
  C7.  With the key configured, when the request body parses (the first
  \<^verbatim>\<open>try\<close>, \<^verbatim>\<open>JSON.parse\<close> and the read of \<^verbatim>\<open>skills\<close>, raises nothing) and its
  skills are the empty sequence or are absent, the handler returns status 400
  and the error \<^verbatim>\<open>No skills provided.\<close>, and sends nothing upstream.
\<close>

theorem no_skills_400:
  assumes "key \<noteq> []" and "parsed = Inr b" and "read_skills parsed = Inr skills"
    and "field b ''skills'' = Arr [] \<or> field b ''skills'' = Undefined"
  shows "handler (Some key) parsed fetched =
    \<lparr>result = Inr \<lparr>statusCode = 400, body = error_body ''No skills provided.''\<rparr>,
     requests = [], logged = []\<rparr>"
proof -
  have "\<not> nullish b"
    using assms(2,3) by (auto simp: read_skills_def get_def split: if_splits)
  then have "read_skills parsed = Inr (Arr [])"
    using assms(2,4) by (auto simp: read_skills_value)
  moreover have "get (Arr []) ''length'' = Inr (Num ''0'')"
    by (simp add: get_def decimal_zero [THEN iffD2])
  ultimately show ?thesis
    using assms(1) by (simp add: handler_def settle_def)
qed

theorem no_skills_400_witness:
  "handler (Some ''k'') (Inr (Obj [(''skills'', Arr [])])) (Inl (FetchError ''unused'')) =
     \<lparr>result = Inr \<lparr>statusCode = 400, body = error_body ''No skills provided.''\<rparr>,
      requests = [], logged = []\<rparr>
   \<and> handler (Some ''k'') (Inr (Obj [])) (Inl (FetchError ''unused'')) =
     \<lparr>result = Inr \<lparr>statusCode = 400, body = error_body ''No skills provided.''\<rparr>,
      requests = [], logged = []\<rparr>"
proof -
  have empty: "read_skills (Inr (Obj [(''skills'', Arr [])])) = Inr (Arr [])"
    and absent: "read_skills (Inr (Obj [])) = Inr (Arr [])"
    by (simp_all add: read_skills_value)
  show ?thesis
    using no_skills_400 [OF _ refl empty, of "''k''" "Inl (FetchError ''unused'')"]
      no_skills_400 [OF _ refl absent, of "''k''" "Inl (FetchError ''unused'')"]
    by simp
qed

text \<open>
  C8.  For a non-empty sequence of skill strings that the handler accepts (key
  configured, body parsed), exactly one request is sent upstream, and its user
  query is \<^verbatim>\<open>Here are the skills I struggled with: \<close> followed by the skills
  with \<^verbatim>\<open>, \<close> between them.
\<close>

theorem user_query_sent:
  assumes "key \<noteq> []" and "parsed = Inr b"
    and "field b ''skills'' = Arr (map Str (s # ss))"
  shows "map sent_user_query (requests (handler (Some key) parsed fetched)) =
    [Str (''Here are the skills I struggled with: '' @ s @ concat (map ((@) '', '') ss))]"
  by (simp add: handler_requests [OF assms] sent_user_query_def upstream_request_def
      payload_def opt_def opt0_def)

theorem user_query_sent_witness:
  "map sent_user_query
     (requests (handler (Some ''k'')
        (Inr (Obj [(''skills'', Arr [Str ''fractions'', Str ''decimals''])]))
        (Inl (FetchError ''network down'')))) =
    [Str ''Here are the skills I struggled with: fractions, decimals'']"
  using user_query_sent [of "''k''"
      "Inr (Obj [(''skills'', Arr [Str ''fractions'', Str ''decimals''])])"
      "Obj [(''skills'', Arr [Str ''fractions'', Str ''decimals''])]"
      "''fractions''" "[''decimals'']" "Inl (FetchError ''network down'')"]
  by simp

section \<open>The upstream response\<close>

text \<open>
  C10.  When the handler has called upstream, the response is a success and the
  text of the first candidate's first content part is the empty string, the
  handler returns status 500 and the error
  \<^verbatim>\<open>Invalid response from AI. No content found.\<close>, not status 200.
\<close>

theorem empty_text_500:
  assumes "requests (handler k parsed (Inr response)) \<noteq> []"
    and "res_ok response" and "res_json response = Inr res"
    and "first_text res = Str []"
  shows "result (handler k parsed (Inr response)) =
    Inr \<lparr>statusCode = 500,
         body = error_body ''Invalid response from AI. No content found.''\<rparr>"
proof -
  have "\<not> nullish res"
    using assms(4) by (auto simp: first_text_def first_candidate_def opt_def opt0_def)
  moreover have "\<not> truthy (first_text res)"
    using assms(4) by simp
  ultimately have "read_result res = Inl (Error ''Invalid response from AI. No content found.'')"
    by (rule read_result_invalid)
  then have "fst (try_block (Inr response))
      = Inl (Error ''Invalid response from AI. No content found.'')"
    using assms(2,3) by (simp add: try_block_ok_response)
  then show ?thesis
    using handler_called [OF assms(1)] by simp
qed

theorem empty_text_500_witness:
  "result (handler (Some ''k'') (Inr (Obj [(''skills'', Arr [Str ''fractions''])]))
     (Inr \<lparr>res_ok = True, res_status = 200,
           res_json = Inr (Obj [(''candidates'',
             Arr [Obj [(''content'', Obj [(''parts'', Arr [Obj [(''text'', Str [])]])])]])])\<rparr>)) =
    Inr \<lparr>statusCode = 500,
         body = error_body ''Invalid response from AI. No content found.''\<rparr>"
proof -
  have called: "requests (handler (Some ''k'') (Inr (Obj [(''skills'', Arr [Str ''fractions''])]))
     (Inr \<lparr>res_ok = True, res_status = 200,
           res_json = Inr (Obj [(''candidates'',
             Arr [Obj [(''content'', Obj [(''parts'', Arr [Obj [(''text'', Str [])]])])]])])\<rparr>)) \<noteq> []"
    using handler_requests [of "''k''" "Inr (Obj [(''skills'', Arr [Str ''fractions''])])"
        "Obj [(''skills'', Arr [Str ''fractions''])]" "''fractions''" "[]"]
    by simp
  have empty: "first_text (Obj [(''candidates'',
      Arr [Obj [(''content'', Obj [(''parts'', Arr [Obj [(''text'', Str [])]])])]])]) = Str []"
    by (simp add: first_text_def first_candidate_def opt_def opt0_def)
  show ?thesis
    using empty_text_500 [OF called _ _ empty] by simp
qed

text \<open>
  C9, as the code has it.  When the handler has called upstream, the response
  is a success whose body is not \<^verbatim>\<open>null\<close>, and the body has no first candidate
  or the first candidate has no text in its first content part, the handler
  returns status 500 and the error \<^verbatim>\<open>Invalid response from AI. No content found.\<close>
\<close>

theorem no_content_500:
  assumes "requests (handler k parsed (Inr response)) \<noteq> []"
    and "res_ok response" and "res_json response = Inr res"
    and "\<not> nullish res"
    and "nullish (first_candidate res) \<or> nullish (first_text res)"
  shows "result (handler k parsed (Inr response)) =
    Inr \<lparr>statusCode = 500,
         body = error_body ''Invalid response from AI. No content found.''\<rparr>"
proof -
  have "\<not> truthy (first_text res)"
    using assms(5) no_candidate_no_text [of res] nullish_falsy [of "first_text res"] by auto
  with assms(4)
  have "read_result res = Inl (Error ''Invalid response from AI. No content found.'')"
    by (rule read_result_invalid)
  then have "fst (try_block (Inr response))
      = Inl (Error ''Invalid response from AI. No content found.'')"
    using assms(2,3) by (simp add: try_block_ok_response)
  then show ?thesis
    using handler_called [OF assms(1)] by simp
qed

theorem no_content_500_witness:
  "result (handler (Some ''k'') (Inr (Obj [(''skills'', Arr [Str ''fractions''])]))
     (Inr \<lparr>res_ok = True, res_status = 200, res_json = Inr (Obj [(''candidates'', Arr [])])\<rparr>)) =
    Inr \<lparr>statusCode = 500,
         body = error_body ''Invalid response from AI. No content found.''\<rparr>"
proof -
  have called: "requests (handler (Some ''k'') (Inr (Obj [(''skills'', Arr [Str ''fractions''])]))
     (Inr \<lparr>res_ok = True, res_status = 200,
           res_json = Inr (Obj [(''candidates'', Arr [])])\<rparr>)) \<noteq> []"
    using handler_requests [of "''k''" "Inr (Obj [(''skills'', Arr [Str ''fractions''])])"
        "Obj [(''skills'', Arr [Str ''fractions''])]" "''fractions''" "[]"]
    by simp
  have none: "nullish (first_candidate (Obj [(''candidates'', Arr [])]))
      \<or> nullish (first_text (Obj [(''candidates'', Arr [])]))"
    by (simp add: first_candidate_def opt_def opt0_def)
  show ?thesis
    using no_content_500 [OF called _ _ _ none] by simp
qed

text \<open>
  C9 as stated fails: a successful response whose body is \<^verbatim>\<open>null\<close> has no
  candidate, and the handler reports the fault of reading \<^verbatim>\<open>candidates\<close> of
  \<^verbatim>\<open>null\<close> instead.
\<close>

theorem no_content_500_counterexample:
  "nullish (first_candidate Null)
   \<and> result (handler (Some ''k'') (Inr (Obj [(''skills'', Arr [Str ''fractions''])]))
        (Inr \<lparr>res_ok = True, res_status = 200, res_json = Inr Null\<rparr>)) =
      Inr \<lparr>statusCode = 500,
           body = error_body (''Cannot read properties of null (reading ''
                              @ [CHR 0x27] @ ''candidates'' @ [CHR 0x27] @ '')'')\<rparr>
   \<and> result (handler (Some ''k'') (Inr (Obj [(''skills'', Arr [Str ''fractions''])]))
        (Inr \<lparr>res_ok = True, res_status = 200, res_json = Inr Null\<rparr>)) \<noteq>
      Inr \<lparr>statusCode = 500,
           body = error_body ''Invalid response from AI. No content found.''\<rparr>"
  by code_simp

text \<open>
  C3, as the code has it.  When the handler has called upstream, the response
  has a non-success status, and its body is read as a value other than \<^verbatim>\<open>null\<close>
  whose \<^verbatim>\<open>error.message\<close> converts to a string, the handler returns status 500
  and the error \<^verbatim>\<open>API Error: <status> <message>\<close>; the message is empty when
  \<^verbatim>\<open>error\<close> or \<^verbatim>\<open>error.message\<close> is absent (or falsy).
\<close>

theorem api_error_500:
  assumes "requests (handler k parsed (Inr response)) \<noteq> []"
    and "\<not> res_ok response" and "res_json response = Inr errorBody"
    and "\<not> nullish errorBody"
    and "(truthy (error_message errorBody) \<and> to_str (error_message errorBody) = Inr t)
         \<or> (\<not> truthy (error_message errorBody) \<and> t = [])"
  shows "result (handler k parsed (Inr response)) =
    Inr \<lparr>statusCode = 500,
         body = error_body (''API Error: '' @ decimal (res_status response) @ '' '' @ t)\<rparr>"
proof -
  have "get errorBody ''error'' = Inr (field errorBody ''error'')"
    using assms(4) by (simp add: get_def)
  moreover have "opt (field errorBody ''error'') ''message'' = error_message errorBody"
    using assms(4) by (simp add: error_message_def opt_def [of errorBody])
  moreover have "to_str (if truthy (error_message errorBody) then error_message errorBody
      else Str []) = Inr t"
    using assms(5) by auto
  ultimately have "api_error (res_status response) errorBody
      = Error (''API Error: '' @ decimal (res_status response) @ '' '' @ t)"
    by (simp add: api_error_def)
  then have "fst (try_block (Inr response))
      = Inl (Error (''API Error: '' @ decimal (res_status response) @ '' '' @ t))"
    using assms(2,3) by (simp add: try_block_error_response)
  then show ?thesis
    using handler_called [OF assms(1)] by simp
qed

theorem api_error_500_witness:
  "result (handler (Some ''k'') (Inr (Obj [(''skills'', Arr [Str ''fractions''])]))
     (Inr \<lparr>res_ok = False, res_status = 429,
           res_json = Inr (Obj [(''error'', Obj [(''message'', Str ''Quota exceeded'')])])\<rparr>)) =
    Inr \<lparr>statusCode = 500, body = error_body ''API Error: 429 Quota exceeded''\<rparr>
   \<and> result (handler (Some ''k'') (Inr (Obj [(''skills'', Arr [Str ''fractions''])]))
     (Inr \<lparr>res_ok = False, res_status = 503, res_json = Inr (Obj [])\<rparr>)) =
    Inr \<lparr>statusCode = 500, body = error_body ''API Error: 503 ''\<rparr>"
proof -
  have called: "requests (handler (Some ''k'') (Inr (Obj [(''skills'', Arr [Str ''fractions''])]))
      (Inr r)) \<noteq> []" for r
    using handler_requests [of "''k''" "Inr (Obj [(''skills'', Arr [Str ''fractions''])])"
        "Obj [(''skills'', Arr [Str ''fractions''])]" "''fractions''" "[]"]
    by simp
  have present: "truthy (error_message (Obj [(''error'', Obj [(''message'', Str ''Quota exceeded'')])]))
      \<and> to_str (error_message (Obj [(''error'', Obj [(''message'', Str ''Quota exceeded'')])]))
          = Inr ''Quota exceeded''"
    by (simp add: error_message_def opt_def)
  have absent: "\<not> truthy (error_message (Obj [])) \<and> [] = ([] :: string)"
    by (simp add: error_message_def opt_def)
  have d429: "decimal 429 = ''429''" and d503: "decimal 503 = ''503''"
    by code_simp+
  show ?thesis
    using api_error_500 [OF called _ _ _ disjI1 [OF present]]
      api_error_500 [OF called _ _ _ disjI2 [OF absent]]
    by (simp add: d429 d503)
qed

text \<open>
  C3 as stated fails: when the body of a non-success response cannot be read as
  JSON (an HTML error page, say), or is \<^verbatim>\<open>null\<close>, the handler reports the
  fault of reading it, and its error is not an \<^verbatim>\<open>API Error\<close> with the status.
\<close>

theorem api_error_500_counterexample:
  "result (handler (Some ''k'') (Inr (Obj [(''skills'', Arr [Str ''fractions''])]))
     (Inr \<lparr>res_ok = False, res_status = 502,
           res_json = Inl (FetchError ''invalid json response body'')\<rparr>)) =
    Inr \<lparr>statusCode = 500, body = error_body ''invalid json response body''\<rparr>
   \<and> result (handler (Some ''k'') (Inr (Obj [(''skills'', Arr [Str ''fractions''])]))
     (Inr \<lparr>res_ok = False, res_status = 502, res_json = Inr Null\<rparr>)) =
    Inr \<lparr>statusCode = 500,
         body = error_body (''Cannot read properties of null (reading ''
                            @ [CHR 0x27] @ ''error'' @ [CHR 0x27] @ '')'')\<rparr>"
  by code_simp

section \<open>A fault outside the two try blocks\<close>

text \<open>
  C1.  Every fault is to end in a reply of status 500 that carries its message,
  and never in a rejected promise.  The handler breaks this at the request body
  \<^verbatim>\<open>{"skills": "fractions"}\<close> with the key configured: the body parses, the
  skills are truthy and their length is 9, not zero, so both gates are passed;
  \<^verbatim>\<open>skills.join(', ')\<close> of line 59 then raises a \<^verbatim>\<open>TypeError\<close>, and that line
  lies outside both \<^verbatim>\<open>try\<close> blocks.  The promise of the handler is rejected
  with the fault: no reply is returned, nothing is sent upstream and nothing
  is logged, whatever upstream would have answered.
\<close>

theorem non_array_skills_rejected:
  "handler (Some ''k'') (Inr (Obj [(''skills'', Str ''fractions'')])) fetched =
     \<lparr>result = Inl (TypeError ''skills.join is not a function''),
      requests = [], logged = []\<rparr>"
proof -
  have "read_skills (Inr (Obj [(''skills'', Str ''fractions'')])) = Inr (Str ''fractions'')"
    by (simp add: read_skills_value)
  moreover have "get (Str ''fractions'') ''length'' = Inr (Num ''9'')"
    by code_simp
  moreover have "call_join (Str ''fractions'') '', ''
      = Inl (TypeError ''skills.join is not a function'')"
    by (simp add: call_join_def)
  ultimately show ?thesis
    by (simp add: handler_def settle_def)
qed

end
